theory Spec2Isabelle
  imports Main
begin

section \<open>The selector builder of 05-objects-tasks.js\<close>

text \<open>
  The class \<open>Test\<close> is a mutable accumulator. Each method mutates \<open>this\<close> and returns
  it, or throws an \<open>Error\<close>. A method is modelled as a function from the instance before
  the call to the outcome of the call: \<open>Inr s'\<close> when it returns (\<open>s'\<close> is \<open>this\<close> as the
  method left it), \<open>Inl (e, s')\<close> when it throws \<open>e\<close> (\<open>s'\<close> is \<open>this\<close> at the throw: the
  assignments made before the throw stay in the object).

  The source throws \<open>new Error(message)\<close> with one of two messages; the two are told apart
  by the constructors of \<open>error\<close>, and \<open>message\<close> gives the text.

  The fragment values are strings. The three counters start at 0 and only ever grow by 1,
  so they are natural numbers.
\<close>

datatype error = CardinalityError | OrderError

fun message :: "error \<Rightarrow> string" where
  "message CardinalityError =
     ''Element, id and pseudo-element should not occur more then one time inside the selector''"
| "message OrderError =
     ''Selector parts should be arranged in the following order: element, id, class, attribute, pseudo-class, pseudo-element''"

record Test =
  string :: string
  idc :: nat
  selector :: nat
  psel :: nat
  prev :: string

type_synonym outcome = "(error \<times> Test) + Test"

text \<open>\<open>constructor(val)\<close>, called as \<open>new Test(val)\<close>.\<close>

definition new_Test :: "string \<Rightarrow> Test" where
  "new_Test val = \<lparr>string = val, idc = 0, selector = 0, psel = 0, prev = []\<rparr>"

definition stringify :: "Test \<Rightarrow> string" where
  "stringify s = string s"

text \<open>\<open>exception1()\<close> and \<open>exception2(value)\<close>: \<open>True\<close> when the method throws.\<close>

definition exception1 :: "Test \<Rightarrow> bool" where
  "exception1 s = (idc s = 2 \<or> selector s = 2 \<or> psel s = 2)"

definition exception2 :: "string \<Rightarrow> Test \<Rightarrow> bool" where
  "exception2 val s = (if prev s \<noteq> val then (if prev s \<noteq> [] then True else False) else False)"

definition element :: "string \<Rightarrow> Test \<Rightarrow> outcome" where
  "element val s =
     (let s1 = s\<lparr>selector := selector s + 1\<rparr> in
      if exception1 s1 then Inl (CardinalityError, s1)
      else if exception2 ''element'' s1 then Inl (OrderError, s1)
      else let s2 = s1\<lparr>prev := ''element''\<rparr> in
        Inr (s2\<lparr>string := string s2 @ val\<rparr>))"

definition id' :: "string \<Rightarrow> Test \<Rightarrow> outcome" where
  "id' val s =
     (let s1 = s\<lparr>idc := idc s + 1\<rparr> in
      if exception1 s1 then Inl (CardinalityError, s1)
      else if exception2 ''element'' s1 then Inl (OrderError, s1)
      else if prev s1 = ''psel'' then Inl (OrderError, s1)
      else let s2 = s1\<lparr>prev := ''id''\<rparr> in
        Inr (s2\<lparr>string := string s2 @ ''#'' @ val\<rparr>))"

definition class' :: "string \<Rightarrow> Test \<Rightarrow> outcome" where
  "class' val s =
     (if prev s = ''attr'' then Inl (OrderError, s)
      else let s1 = s\<lparr>prev := ''id''\<rparr> in
        Inr (s1\<lparr>string := string s1 @ ''.'' @ val\<rparr>))"

definition attr :: "string \<Rightarrow> Test \<Rightarrow> outcome" where
  "attr val s =
     (if prev s = ''pscl'' then Inl (OrderError, s)
      else let s1 = s\<lparr>prev := ''attr''\<rparr> in
        Inr (s1\<lparr>string := string s1 @ ''['' @ val @ '']''\<rparr>))"

definition pseudoClass :: "string \<Rightarrow> Test \<Rightarrow> outcome" where
  "pseudoClass val s =
     (if prev s = ''psel'' then Inl (OrderError, s)
      else let s1 = s\<lparr>prev := ''pscl''\<rparr> in
        Inr (s1\<lparr>string := string s1 @ '':'' @ val\<rparr>))"

definition pseudoElement :: "string \<Rightarrow> Test \<Rightarrow> outcome" where
  "pseudoElement val s =
     (let s1 = s\<lparr>prev := ''psel''\<rparr>;
          s2 = s1\<lparr>psel := psel s1 + 1\<rparr> in
      if exception1 s2 then Inl (CardinalityError, s2)
      else Inr (s2\<lparr>string := string s2 @ ''::'' @ val\<rparr>))"

text \<open>
  \<open>combine(selector1, combinator, selector2)\<close>: the two selectors are \<open>Test\<close> objects,
  read through \<open>stringify()\<close> only.
\<close>

definition combine :: "Test \<Rightarrow> string \<Rightarrow> Test \<Rightarrow> Test \<Rightarrow> outcome" where
  "combine selector1 combinator selector2 s =
     Inr (s\<lparr>string := string s @ stringify selector1 @ '' '' @ combinator @ '' '' @ stringify selector2\<rparr>)"

subsection \<open>The facade \<open>cssSelectorBuilder\<close>\<close>

definition cssSelectorBuilder_element :: "string \<Rightarrow> outcome" where
  "cssSelectorBuilder_element val = element val (new_Test [])"

definition cssSelectorBuilder_id :: "string \<Rightarrow> outcome" where
  "cssSelectorBuilder_id val = id' val (new_Test [])"

definition cssSelectorBuilder_class :: "string \<Rightarrow> outcome" where
  "cssSelectorBuilder_class val = class' val (new_Test [])"

definition cssSelectorBuilder_attr :: "string \<Rightarrow> outcome" where
  "cssSelectorBuilder_attr val = attr val (new_Test [])"

definition cssSelectorBuilder_pseudoClass :: "string \<Rightarrow> outcome" where
  "cssSelectorBuilder_pseudoClass val = pseudoClass val (new_Test [])"

definition cssSelectorBuilder_pseudoElement :: "string \<Rightarrow> outcome" where
  "cssSelectorBuilder_pseudoElement val = pseudoElement val (new_Test [])"

definition cssSelectorBuilder_combine :: "Test \<Rightarrow> string \<Rightarrow> Test \<Rightarrow> outcome" where
  "cssSelectorBuilder_combine selector1 combinator selector2 =
     combine selector1 combinator selector2 (new_Test [])"

subsection \<open>Callers: chained calls, and calls whose errors are caught\<close>

text \<open>
  A call of one of the seven mutating methods of \<open>Test\<close>, with its arguments.
\<close>

datatype call =
    Element string
  | Id string
  | Class string
  | Attr string
  | PseudoClass string
  | PseudoElement string
  | Combine Test string Test

fun invoke :: "call \<Rightarrow> Test \<Rightarrow> outcome" where
  "invoke (Element v) s = element v s"
| "invoke (Id v) s = id' v s"
| "invoke (Class v) s = class' v s"
| "invoke (Attr v) s = attr v s"
| "invoke (PseudoClass v) s = pseudoClass v s"
| "invoke (PseudoElement v) s = pseudoElement v s"
| "invoke (Combine a c b) s = combine a c b s"

text \<open>
  \<open>t.m1(...).m2(...)...\<close>: every method returns \<open>this\<close>, so the next call is on the same
  instance; the first throw ends the chain.
\<close>

fun chain :: "Test \<Rightarrow> call list \<Rightarrow> outcome" where
  "chain s [] = Inr s"
| "chain s (c # cs) = (case invoke c s of Inl e \<Rightarrow> Inl e | Inr s' \<Rightarrow> chain s' cs)"

text \<open>
  The instance after a call, whether the call returned or threw: what a caller holds
  who wrote \<open>try { t.m(...) } catch (e) { }\<close>.
\<close>

fun after :: "outcome \<Rightarrow> Test" where
  "after (Inl (e, s)) = s"
| "after (Inr s) = s"

fun caught :: "Test \<Rightarrow> call list \<Rightarrow> Test" where
  "caught s [] = s"
| "caught s (c # cs) = caught (after (invoke c s)) cs"

text \<open>The calls that returned, of calls made one after the other with every error caught.\<close>

fun returned :: "Test \<Rightarrow> call list \<Rightarrow> call list" where
  "returned s [] = []"
| "returned s (c # cs) =
     (case invoke c s of
        Inl (e, s') \<Rightarrow> returned s' cs
      | Inr s' \<Rightarrow> c # returned s' cs)"

text \<open>How many of the calls are \<open>element\<close>, \<open>id\<close>, \<open>pseudoElement\<close> calls.\<close>

fun element_calls :: "call list \<Rightarrow> nat" where
  "element_calls [] = 0"
| "element_calls (Element v # cs) = Suc (element_calls cs)"
| "element_calls (c # cs) = element_calls cs"

fun id_calls :: "call list \<Rightarrow> nat" where
  "id_calls [] = 0"
| "id_calls (Id v # cs) = Suc (id_calls cs)"
| "id_calls (c # cs) = id_calls cs"

fun pseudoElement_calls :: "call list \<Rightarrow> nat" where
  "pseudoElement_calls [] = 0"
| "pseudoElement_calls (PseudoElement v # cs) = Suc (pseudoElement_calls cs)"
| "pseudoElement_calls (c # cs) = pseudoElement_calls cs"

text \<open>
  The rendering of one call as the specification words it: no prefix for the element
  type, \<open>#\<close> for an id, \<open>.\<close> for a class, \<open>[...]\<close> around an attribute, \<open>:\<close> for a
  pseudo-class, \<open>::\<close> for a pseudo-element, and left text, space, combinator, space,
  right text for a combination.
\<close>

fun spec_text :: "call \<Rightarrow> string" where
  "spec_text (Element v) = v"
| "spec_text (Id v) = ''#'' @ v"
| "spec_text (Class v) = ''.'' @ v"
| "spec_text (Attr v) = ''['' @ v @ '']''"
| "spec_text (PseudoClass v) = '':'' @ v"
| "spec_text (PseudoElement v) = ''::'' @ v"
| "spec_text (Combine a c b) = stringify a @ '' '' @ c @ '' '' @ stringify b"


section \<open>The rectangle\<close>

text \<open>
  \<open>Rectangle(width, height)\<close> returns an object literal with the two fields and the method
  \<open>getArea()\<close>, which reads \<open>this.width\<close> and \<open>this.height\<close> when it is called. The
  number type is left open: \<open>*\<close> is the multiplication of whatever numbers the fields
  hold.
\<close>

record 'n Rectangle =
  width :: 'n
  height :: 'n

definition Rectangle :: "'n \<Rightarrow> 'n \<Rightarrow> 'n Rectangle" where
  "Rectangle w h = \<lparr>width = w, height = h\<rparr>"

definition getArea :: "('n::times) Rectangle \<Rightarrow> 'n" where
  "getArea this = width this * height this"

section \<open>The object codec\<close>

text \<open>
  \<open>getJSON\<close> and \<open>fromJSON\<close> are one call each of the runtime's \<open>JSON.stringify\<close>,
  \<open>JSON.parse\<close> and \<open>Object.setPrototypeOf\<close>. The two \<open>JSON\<close> functions are parameters
  of the model. \<open>JSON.parse\<close> either throws a \<open>SyntaxError\<close> (\<open>None\<close>) or returns a value:
  \<open>null\<close>, a boolean, a number, a string, or a fresh object (a plain object or an array)
  with its own properties. An object's prototype slot holds a reference \<open>'p\<close> to another
  object, or \<open>null\<close> (\<open>None\<close>).
\<close>

datatype codec_error = SyntaxError | TypeError

datatype ('n, 'p) jsvalue =
    JSNull
  | JSBoolean bool
  | JSNumber 'n
  | JSString string
  | JSObject "'p option" "(string \<times> ('n, 'p) jsvalue) list"

text \<open>
  \<open>Object.setPrototypeOf(O, proto)\<close> with \<open>proto\<close> an object or \<open>null\<close>: it throws a
  \<open>TypeError\<close> when \<open>O\<close> is \<open>null\<close>, returns \<open>O\<close> as it is when \<open>O\<close> is not an object, and
  otherwise sets the prototype slot of \<open>O\<close> and returns \<open>O\<close> (an object that \<open>JSON.parse\<close>
  has just made is extensible, so the slot can be set).
\<close>

fun setPrototypeOf :: "('n, 'p) jsvalue \<Rightarrow> 'p option \<Rightarrow> codec_error + ('n, 'p) jsvalue" where
  "setPrototypeOf JSNull proto = Inl TypeError"
| "setPrototypeOf (JSObject p own) proto = Inr (JSObject proto own)"
| "setPrototypeOf v proto = Inr v"


definition fromJSON ::
  "(string \<Rightarrow> ('n, 'p) jsvalue option) \<Rightarrow> 'p option \<Rightarrow> string \<Rightarrow> codec_error + ('n, 'p) jsvalue"
where
  "fromJSON JSON_parse proto json =
     (case JSON_parse json of
        None \<Rightarrow> Inl SyntaxError
      | Some v \<Rightarrow> setPrototypeOf v proto)"

subsection \<open>The runtime's JSON codec\<close>

text \<open>
  Modelled from the spec: \<open>JSON.stringify\<close> and \<open>JSON.parse\<close> are the runtime's, not the
  repository's. The specification calls their text the canonical textual encoding of
  objects, arrays and primitives; the definitions below follow the language standard
  (ECMA-262: JSON.stringify, QuoteJSONString, Number::toString, JSON.parse, the order of
  own property keys; ECMA-404: the JSON grammar), for the values and texts described
  here.

  A value is \<open>null\<close>, a boolean, a number, a string, an array or an object.
  \<^item> A number is an integer; the model is the runtime's for the integers from
    -9007199254740991 to 9007199254740991, the range in which every integer is a
    double and is written with all its digits.
  \<^item> A character is a code unit below 256.
  \<^item> \<open>JObj kvs\<close> is an object with the own properties \<open>kvs\<close>, in the order in which the
    runtime enumerates them: the keys that are array indices first, in ascending order,
    then the other keys in the order of their creation. The keys of an object are
    distinct.
\<close>

datatype json =
    JNull
  | JBool bool
  | JNum int
  | JStr string
  | JArr "json list"
  | JObj "(string \<times> json) list"

text \<open>
  What the model says of \<open>JSON.parse\<close> on a text: it throws a SyntaxError (\<open>Rejected\<close>), it
  returns a value (\<open>Parsed\<close>), or the text needs a number or a character that the model
  does not have (a fraction or an exponent, an integer outside the range, \<open>-0\<close>, an
  four-digit escape above 00FF) and the model says nothing (\<open>Unmodelled\<close>).
\<close>

datatype 'a parsed = Rejected | Unmodelled | Parsed 'a

paragraph \<open>Numbers\<close>








paragraph \<open>Strings\<close>









paragraph \<open>The properties of an object\<close>





paragraph \<open>\<open>JSON.stringify(value)\<close>\<close>




paragraph \<open>\<open>JSON.parse(text)\<close>\<close>





paragraph \<open>The values of the model, and what \<open>fromJSON\<close> is given\<close>







section \<open>Facts about the selector builder\<close>

lemmas method_defs =
  element_def id'_def class'_def attr_def pseudoClass_def pseudoElement_def combine_def
  exception1_def exception2_def

text \<open>
  An expression \<open>cssSelectorBuilder.m(v).m1(v1)...\<close> is the chain of its calls on
  \<open>new Test('')\<close>: each facade function is its method on a new instance.
\<close>

lemma facade_is_first_call:
  "cssSelectorBuilder_element v = chain (new_Test []) [Element v] \<and>
   cssSelectorBuilder_id v = chain (new_Test []) [Id v] \<and>
   cssSelectorBuilder_class v = chain (new_Test []) [Class v] \<and>
   cssSelectorBuilder_attr v = chain (new_Test []) [Attr v] \<and>
   cssSelectorBuilder_pseudoClass v = chain (new_Test []) [PseudoClass v] \<and>
   cssSelectorBuilder_pseudoElement v = chain (new_Test []) [PseudoElement v] \<and>
   cssSelectorBuilder_combine a c b = chain (new_Test []) [Combine a c b]"
  by (simp add: cssSelectorBuilder_element_def cssSelectorBuilder_id_def
      cssSelectorBuilder_class_def cssSelectorBuilder_attr_def
      cssSelectorBuilder_pseudoClass_def cssSelectorBuilder_pseudoElement_def
      cssSelectorBuilder_combine_def split: sum.splits)

subsection \<open>The text of a chain\<close>

lemma invoke_string:
  "invoke c s = Inr s' \<Longrightarrow> string s' = string s @ spec_text c"
  by (cases c) (auto simp: method_defs stringify_def Let_def split: if_splits)

lemma chain_string:
  "chain s cs = Inr s' \<Longrightarrow> string s' = string s @ concat (map spec_text cs)"
proof (induction cs arbitrary: s)
  case Nil
  then show ?case by simp
next
  case (Cons c cs)
  from Cons.prems obtain s1 where step: "invoke c s = Inr s1" and rest: "chain s1 cs = Inr s'"
    by (auto split: sum.splits)
  from Cons.IH [OF rest] invoke_string [OF step] show ?case by simp
qed

text \<open>A call that throws leaves the text as it was: every throw comes before the append.\<close>

lemma invoke_throw_string:
  "invoke c s = Inl (e, s') \<Longrightarrow> string s' = string s"
  by (cases c) (auto simp: method_defs Let_def split: if_splits)

lemma caught_string:
  "string (caught s cs) = string s @ concat (map spec_text (returned s cs))"
proof (induction cs arbitrary: s)
  case Nil
  show ?case by simp
next
  case (Cons c cs)
  show ?case
  proof (cases "invoke c s")
    case (Inl thrown)
    obtain e s1 where thrown: "thrown = (e, s1)" by (cases thrown)
    with Inl Cons.IH [of s1] invoke_throw_string [of c s e s1] show ?thesis by simp
  next
    case (Inr s1)
    with Cons.IH [of s1] invoke_string [of c s s1] show ?thesis by simp
  qed
qed

subsection \<open>The counters count the calls\<close>

lemma after_selector:
  "selector (after (invoke c s)) = selector s + element_calls [c]"
  by (cases c) (auto simp: method_defs Let_def)

lemma after_idc:
  "idc (after (invoke c s)) = idc s + id_calls [c]"
  by (cases c) (auto simp: method_defs Let_def)

lemma after_psel:
  "psel (after (invoke c s)) = psel s + pseudoElement_calls [c]"
  by (cases c) (auto simp: method_defs Let_def)

lemma element_calls_Cons: "element_calls (c # cs) = element_calls [c] + element_calls cs"
  by (cases c) simp_all

lemma id_calls_Cons: "id_calls (c # cs) = id_calls [c] + id_calls cs"
  by (cases c) simp_all

lemma pseudoElement_calls_Cons:
  "pseudoElement_calls (c # cs) = pseudoElement_calls [c] + pseudoElement_calls cs"
  by (cases c) simp_all

lemma caught_selector: "selector (caught s cs) = selector s + element_calls cs"
proof (induction cs arbitrary: s)
  case Nil
  show ?case by simp
next
  case (Cons c cs)
  show ?case
    using Cons.IH [of "after (invoke c s)"] after_selector [of c s] element_calls_Cons [of c cs]
    by simp
qed

lemma caught_idc: "idc (caught s cs) = idc s + id_calls cs"
proof (induction cs arbitrary: s)
  case Nil
  show ?case by simp
next
  case (Cons c cs)
  show ?case
    using Cons.IH [of "after (invoke c s)"] after_idc [of c s] id_calls_Cons [of c cs]
    by simp
qed

lemma caught_psel: "psel (caught s cs) = psel s + pseudoElement_calls cs"
proof (induction cs arbitrary: s)
  case Nil
  show ?case by simp
next
  case (Cons c cs)
  show ?case
    using Cons.IH [of "after (invoke c s)"] after_psel [of c s]
      pseudoElement_calls_Cons [of c cs]
    by simp
qed

text \<open>A chain that returns leaves the instance that catching every error would leave.\<close>

lemma chain_caught: "chain s cs = Inr s' \<Longrightarrow> caught s cs = s'"
proof (induction cs arbitrary: s)
  case Nil
  then show ?case by simp
next
  case (Cons c cs)
  from Cons.prems obtain s1 where step: "invoke c s = Inr s1" and rest: "chain s1 cs = Inr s'"
    by (auto split: sum.splits)
  from Cons.IH [OF rest] step show ?case by simp
qed

lemma invoke_counters_below_2:
  "invoke c s = Inr s' \<Longrightarrow> selector s < 2 \<and> idc s < 2 \<and> psel s < 2
     \<Longrightarrow> selector s' < 2 \<and> idc s' < 2 \<and> psel s' < 2"
  by (cases c) (auto simp: method_defs Let_def split: if_splits)

lemma chain_counters_below_2:
  "chain s cs = Inr s' \<Longrightarrow> selector s < 2 \<and> idc s < 2 \<and> psel s < 2
     \<Longrightarrow> selector s' < 2 \<and> idc s' < 2 \<and> psel s' < 2"
proof (induction cs arbitrary: s)
  case Nil
  then show ?case by simp
next
  case (Cons c cs)
  from Cons.prems(1) obtain s1 where step: "invoke c s = Inr s1" and rest: "chain s1 cs = Inr s'"
    by (auto split: sum.splits)
  from Cons.IH [OF rest invoke_counters_below_2 [OF step Cons.prems(2)]] show ?case .
qed

section \<open>The order of the fragments\<close>

text \<open>
  C1. The claim: appending a fragment whose category is strictly less than the category
  of the most recently appended fragment (element, id, class, attribute, pseudo-class,
  pseudo-element, in this order) fails with an OrderError. The code misses cases:
  \<open>class\<close> throws only after an attribute and \<open>attr\<close> only after a pseudo-class, so a
  class after a pseudo-class or a pseudo-element, and an attribute after a
  pseudo-element, are appended and the chain returns. The neighbouring cases the code
  does check (a class after an attribute, an id after a class) throw the OrderError.
\<close>

theorem class_after_pseudoClass_is_appended:
  "chain (new_Test []) [PseudoClass ''a'', Class ''b'']
     = Inr \<lparr>string = '':a.b'', idc = 0, selector = 0, psel = 0, prev = ''id''\<rparr> \<and>
   chain (new_Test []) [PseudoElement ''a'', Class ''b'']
     = Inr \<lparr>string = ''::a.b'', idc = 0, selector = 0, psel = 1, prev = ''id''\<rparr> \<and>
   chain (new_Test []) [PseudoElement ''a'', Attr ''b'']
     = Inr \<lparr>string = ''::a[b]'', idc = 0, selector = 0, psel = 1, prev = ''attr''\<rparr> \<and>
   chain (new_Test []) [Attr ''a'', Class ''b'']
     = Inl (OrderError, \<lparr>string = ''[a]'', idc = 0, selector = 0, psel = 0, prev = ''attr''\<rparr>) \<and>
   chain (new_Test []) [Class ''x'', Id ''y'']
     = Inl (OrderError, \<lparr>string = ''.x'', idc = 1, selector = 0, psel = 0, prev = ''id''\<rparr>)"
  by (simp add: method_defs new_Test_def)

section \<open>At most one element, id and pseudo-element\<close>

text \<open>
  C2. On every instance, the second call of \<open>element\<close>, of \<open>id\<close> and of \<open>pseudoElement\<close>
  throws the CardinalityError: whatever was called on the instance before (\<open>cs\<close>, in any
  order, each call returning or throwing with the error caught), if exactly one of the
  calls was an \<open>element\<close> call, the next \<open>element\<close> call throws it, and the same for \<open>id\<close>
  and \<open>pseudoElement\<close>. So a chain that returns holds each of the three at most once.
\<close>

theorem second_append_CardinalityError:
  "(chain (new_Test t) cs = Inr s \<longrightarrow>
      element_calls cs \<le> 1 \<and> id_calls cs \<le> 1 \<and> pseudoElement_calls cs \<le> 1) \<and>
   (element_calls cs = 1 \<longrightarrow>
      element v (caught (new_Test t) cs)
        = Inl (CardinalityError, (caught (new_Test t) cs)\<lparr>selector := 2\<rparr>)) \<and>
   (id_calls cs = 1 \<longrightarrow>
      id' v (caught (new_Test t) cs)
        = Inl (CardinalityError, (caught (new_Test t) cs)\<lparr>idc := 2\<rparr>)) \<and>
   (pseudoElement_calls cs = 1 \<longrightarrow>
      pseudoElement v (caught (new_Test t) cs)
        = Inl (CardinalityError, (caught (new_Test t) cs)\<lparr>prev := ''psel'', psel := 2\<rparr>))"
proof (intro conjI impI)
  assume ok: "chain (new_Test t) cs = Inr s"
  have start: "selector (new_Test t) < 2 \<and> idc (new_Test t) < 2 \<and> psel (new_Test t) < 2"
    by (simp add: new_Test_def)
  have "caught (new_Test t) cs = s"
    using ok by (rule chain_caught)
  with caught_selector [of "new_Test t" cs] caught_idc [of "new_Test t" cs]
    caught_psel [of "new_Test t" cs]
  have "selector s = element_calls cs" "idc s = id_calls cs" "psel s = pseudoElement_calls cs"
    by (simp_all add: new_Test_def)
  with chain_counters_below_2 [OF ok start]
  show "element_calls cs \<le> 1" "id_calls cs \<le> 1" "pseudoElement_calls cs \<le> 1"
    by simp_all
next
  assume "element_calls cs = 1"
  with caught_selector [of "new_Test t" cs] have "selector (caught (new_Test t) cs) = 1"
    by (simp add: new_Test_def)
  then show "element v (caught (new_Test t) cs)
        = Inl (CardinalityError, (caught (new_Test t) cs)\<lparr>selector := 2\<rparr>)"
    by (simp add: element_def exception1_def)
next
  assume "id_calls cs = 1"
  with caught_idc [of "new_Test t" cs] have "idc (caught (new_Test t) cs) = 1"
    by (simp add: new_Test_def)
  then show "id' v (caught (new_Test t) cs)
        = Inl (CardinalityError, (caught (new_Test t) cs)\<lparr>idc := 2\<rparr>)"
    by (simp add: id'_def exception1_def)
next
  assume "pseudoElement_calls cs = 1"
  with caught_psel [of "new_Test t" cs] have "psel (caught (new_Test t) cs) = 1"
    by (simp add: new_Test_def)
  then show "pseudoElement v (caught (new_Test t) cs)
        = Inl (CardinalityError, (caught (new_Test t) cs)\<lparr>prev := ''psel'', psel := 2\<rparr>)"
    by (simp add: pseudoElement_def exception1_def)
qed

text \<open>
  After \<open>element('a').id('x').pseudoElement('p')\<close>, a second call of each of the three
  throws the CardinalityError; and so does the second call of \<open>id('x').id('y')\<close>.
\<close>

theorem second_append_CardinalityError_witness:
  "chain (new_Test []) [Element ''a'', Id ''x'', PseudoElement ''p'']
     = Inr \<lparr>string = ''a#x::p'', idc = 1, selector = 1, psel = 1, prev = ''psel''\<rparr> \<and>
   element_calls [Element ''a'', Id ''x'', PseudoElement ''p''] = 1 \<and>
   id_calls [Element ''a'', Id ''x'', PseudoElement ''p''] = 1 \<and>
   pseudoElement_calls [Element ''a'', Id ''x'', PseudoElement ''p''] = 1 \<and>
   element ''b'' \<lparr>string = ''a#x::p'', idc = 1, selector = 1, psel = 1, prev = ''psel''\<rparr>
     = Inl (CardinalityError,
         \<lparr>string = ''a#x::p'', idc = 1, selector = 2, psel = 1, prev = ''psel''\<rparr>) \<and>
   id' ''y'' \<lparr>string = ''a#x::p'', idc = 1, selector = 1, psel = 1, prev = ''psel''\<rparr>
     = Inl (CardinalityError,
         \<lparr>string = ''a#x::p'', idc = 2, selector = 1, psel = 1, prev = ''psel''\<rparr>) \<and>
   pseudoElement ''q'' \<lparr>string = ''a#x::p'', idc = 1, selector = 1, psel = 1, prev = ''psel''\<rparr>
     = Inl (CardinalityError,
         \<lparr>string = ''a#x::p'', idc = 1, selector = 1, psel = 2, prev = ''psel''\<rparr>) \<and>
   chain (new_Test []) [Id ''x'', Id ''y'']
     = Inl (CardinalityError,
         \<lparr>string = ''#x'', idc = 2, selector = 0, psel = 0, prev = ''id''\<rparr>)"
proof -
  let ?cs = "[Element ''a'', Id ''x'', PseudoElement ''p'']"
  let ?s = "\<lparr>string = ''a#x::p'', idc = 1, selector = 1, psel = 1, prev = ''psel''\<rparr>"
  have ok: "chain (new_Test []) ?cs = Inr ?s"
    by (simp add: method_defs new_Test_def)
  have inst: "caught (new_Test []) ?cs = ?s"
    using ok by (rule chain_caught)
  have counts: "element_calls ?cs = 1" "id_calls ?cs = 1" "pseudoElement_calls ?cs = 1"
    by simp_all
  have fluent: "chain (new_Test []) [Id ''x'', Id ''y'']
     = Inl (CardinalityError,
         \<lparr>string = ''#x'', idc = 2, selector = 0, psel = 0, prev = ''id''\<rparr>)"
    by (simp add: method_defs new_Test_def)
  note second = second_append_CardinalityError [of "[]" ?cs ?s, unfolded inst]
  from second [of "''b''"] counts
  have e: "element ''b'' ?s = Inl (CardinalityError, ?s\<lparr>selector := 2\<rparr>)" by blast
  from second [of "''y''"] counts
  have i: "id' ''y'' ?s = Inl (CardinalityError, ?s\<lparr>idc := 2\<rparr>)" by blast
  from second [of "''q''"] counts
  have p: "pseudoElement ''q'' ?s = Inl (CardinalityError, ?s\<lparr>prev := ''psel'', psel := 2\<rparr>)"
    by blast
  from ok counts e i p fluent show ?thesis by simp
qed

section \<open>Rendering\<close>

text \<open>
  C3. For every sequence of fragment appends that all succeed, \<open>stringify()\<close> returns the
  concatenation, in append order, of the fragments' values, each with the prefix of its
  category (none for the element type, \<open>#\<close> for an id, \<open>.\<close> for a class, \<open>[...]\<close> around
  an attribute, \<open>:\<close> for a pseudo-class, \<open>::\<close> for a pseudo-element), and nothing else.
  The same holds of the appends that succeeded when the errors of the others were
  caught.
\<close>

theorem stringify_is_concatenation:
  "(chain (new_Test []) cs = Inr s \<longrightarrow> stringify s = concat (map spec_text cs)) \<and>
   stringify (caught (new_Test []) cs) = concat (map spec_text (returned (new_Test []) cs))"
  using chain_string [of "new_Test []" cs s] caught_string [of "new_Test []" cs]
  by (simp add: stringify_def new_Test_def)

text \<open>
  \<open>id('main').class('container').class('editable')\<close> and
  \<open>element('a').attr('href$=".png"').pseudoClass('focus')\<close>.
\<close>

theorem stringify_is_concatenation_witness:
  "chain (new_Test []) [Id ''main'', Class ''container'', Class ''editable'']
     = Inr \<lparr>string = ''#main.container.editable'', idc = 1, selector = 0, psel = 0,
         prev = ''id''\<rparr> \<and>
   stringify \<lparr>string = ''#main.container.editable'', idc = 1, selector = 0, psel = 0,
         prev = ''id''\<rparr>
     = ''#main.container.editable'' \<and>
   chain (new_Test []) [Element ''a'', Attr ''href$=\".png\"'', PseudoClass ''focus'']
     = Inr \<lparr>string = ''a[href$=\".png\"]:focus'', idc = 0, selector = 1, psel = 0,
         prev = ''pscl''\<rparr> \<and>
   stringify \<lparr>string = ''a[href$=\".png\"]:focus'', idc = 0, selector = 1, psel = 0,
         prev = ''pscl''\<rparr>
     = ''a[href$=\".png\"]:focus''"
proof -
  have a: "chain (new_Test []) [Id ''main'', Class ''container'', Class ''editable'']
     = Inr \<lparr>string = ''#main.container.editable'', idc = 1, selector = 0, psel = 0,
         prev = ''id''\<rparr>"
    by (simp add: method_defs new_Test_def)
  have b: "chain (new_Test []) [Element ''a'', Attr ''href$=\".png\"'', PseudoClass ''focus'']
     = Inr \<lparr>string = ''a[href$=\".png\"]:focus'', idc = 0, selector = 1, psel = 0,
         prev = ''pscl''\<rparr>"
    by (simp add: method_defs new_Test_def)
  from stringify_is_concatenation [of "[Id ''main'', Class ''container'', Class ''editable'']"] a
  have "stringify \<lparr>string = ''#main.container.editable'', idc = 1, selector = 0, psel = 0,
         prev = ''id''\<rparr>
     = concat (map spec_text [Id ''main'', Class ''container'', Class ''editable''])"
    by blast
  moreover
  from stringify_is_concatenation
    [of "[Element ''a'', Attr ''href$=\".png\"'', PseudoClass ''focus'']"] b
  have "stringify \<lparr>string = ''a[href$=\".png\"]:focus'', idc = 0, selector = 1, psel = 0,
         prev = ''pscl''\<rparr>
     = concat (map spec_text [Element ''a'', Attr ''href$=\".png\"'', PseudoClass ''focus''])"
    by blast
  ultimately show ?thesis using a b by simp
qed

section \<open>Combining two selectors\<close>

text \<open>
  C4. For all selectors \<open>left\<close> and \<open>right\<close> and every combinator string,
  \<open>cssSelectorBuilder.combine(left, combinator, right)\<close> returns a builder whose
  \<open>stringify()\<close> is the text of \<open>left\<close>, a space, the combinator as it was given, a
  space and the text of \<open>right\<close>.
\<close>

theorem combine_renders_left_combinator_right:
  "\<exists>s. cssSelectorBuilder_combine left combinator right = Inr s \<and>
       stringify s = stringify left @ '' '' @ combinator @ '' '' @ stringify right"
  by (simp add: cssSelectorBuilder_combine_def combine_def new_Test_def stringify_def)

text \<open>The nested combination of the source's documentation.\<close>

lemma combine_documented_example:
  "cssSelectorBuilder_combine
     (after (chain (new_Test [])
        [Element ''div'', Id ''main'', Class ''container'', Class ''draggable'']))
     ''+''
     (after (cssSelectorBuilder_combine
        (after (chain (new_Test []) [Element ''table'', Id ''data'']))
        ''~''
        (after (cssSelectorBuilder_combine
           (after (chain (new_Test []) [Element ''tr'', PseudoClass ''nth-of-type(even)'']))
           '' ''
           (after (chain (new_Test []) [Element ''td'', PseudoClass ''nth-of-type(even)'']))))))
   = Inr \<lparr>string =
       ''div#main.container.draggable + table#data ~ tr:nth-of-type(even)   td:nth-of-type(even)'',
       idc = 0, selector = 0, psel = 0, prev = []\<rparr>"
  by (simp add: cssSelectorBuilder_combine_def method_defs stringify_def new_Test_def)

section \<open>Separate chains\<close>

text \<open>
  C9. Every function of the facade \<open>cssSelectorBuilder\<close> makes a new accumulator (empty
  text, the three counters zero, the last-category marker empty) and calls its method
  on it; the facade has no field of its own, so what one chain did is not seen by the
  next: \<open>cssSelectorBuilder.id(x)\<close> and \<open>cssSelectorBuilder.id(y)\<close> both return, whereas
  \<open>id(y)\<close> on the instance that \<open>cssSelectorBuilder.id(x)\<close> returned throws.
\<close>

theorem facade_starts_fresh:
  "cssSelectorBuilder_element v
     = element v \<lparr>string = [], idc = 0, selector = 0, psel = 0, prev = []\<rparr> \<and>
   cssSelectorBuilder_id v
     = id' v \<lparr>string = [], idc = 0, selector = 0, psel = 0, prev = []\<rparr> \<and>
   cssSelectorBuilder_class v
     = class' v \<lparr>string = [], idc = 0, selector = 0, psel = 0, prev = []\<rparr> \<and>
   cssSelectorBuilder_attr v
     = attr v \<lparr>string = [], idc = 0, selector = 0, psel = 0, prev = []\<rparr> \<and>
   cssSelectorBuilder_pseudoClass v
     = pseudoClass v \<lparr>string = [], idc = 0, selector = 0, psel = 0, prev = []\<rparr> \<and>
   cssSelectorBuilder_pseudoElement v
     = pseudoElement v \<lparr>string = [], idc = 0, selector = 0, psel = 0, prev = []\<rparr> \<and>
   cssSelectorBuilder_combine a c b
     = combine a c b \<lparr>string = [], idc = 0, selector = 0, psel = 0, prev = []\<rparr> \<and>
   cssSelectorBuilder_id x
     = Inr \<lparr>string = ''#'' @ x, idc = 1, selector = 0, psel = 0, prev = ''id''\<rparr> \<and>
   cssSelectorBuilder_id y
     = Inr \<lparr>string = ''#'' @ y, idc = 1, selector = 0, psel = 0, prev = ''id''\<rparr> \<and>
   id' y (after (cssSelectorBuilder_id x))
     = Inl (CardinalityError,
         \<lparr>string = ''#'' @ x, idc = 2, selector = 0, psel = 0, prev = ''id''\<rparr>)"
  by (simp add: cssSelectorBuilder_element_def cssSelectorBuilder_id_def
      cssSelectorBuilder_class_def cssSelectorBuilder_attr_def
      cssSelectorBuilder_pseudoClass_def cssSelectorBuilder_pseudoElement_def
      cssSelectorBuilder_combine_def new_Test_def id'_def exception1_def exception2_def)

section \<open>After a caught CardinalityError\<close>

text \<open>
  C10, as the code has it. Each of \<open>element\<close>, \<open>id\<close> and \<open>pseudoElement\<close> increments its
  counter before the check, and throws the CardinalityError exactly when, after the
  increment, one of the three counters (its own or another fragment's) is 2. So on an
  instance that has seen only \<open>element\<close> calls, or only \<open>pseudoElement\<close> calls, the second
  call throws and, the error caught, the third call returns and appends its text; on an
  instance that has seen only \<open>id\<close> calls, the third call passes the cardinality check
  and throws the OrderError, and appends nothing.
\<close>

theorem cardinality_check_only_at_two:
  "(element v s = Inl (CardinalityError, s') \<longleftrightarrow>
      s' = s\<lparr>selector := selector s + 1\<rparr> \<and>
      (idc s = 2 \<or> selector s + 1 = 2 \<or> psel s = 2)) \<and>
   (id' v s = Inl (CardinalityError, s') \<longleftrightarrow>
      s' = s\<lparr>idc := idc s + 1\<rparr> \<and>
      (idc s + 1 = 2 \<or> selector s = 2 \<or> psel s = 2)) \<and>
   (pseudoElement v s = Inl (CardinalityError, s') \<longleftrightarrow>
      s' = s\<lparr>prev := ''psel'', psel := psel s + 1\<rparr> \<and>
      (idc s = 2 \<or> selector s = 2 \<or> psel s + 1 = 2)) \<and>
   element b (caught (new_Test t) [Element a])
     = Inl (CardinalityError,
         \<lparr>string = t @ a, idc = 0, selector = 2, psel = 0, prev = ''element''\<rparr>) \<and>
   element c (caught (new_Test t) [Element a, Element b])
     = Inr \<lparr>string = t @ a @ c, idc = 0, selector = 3, psel = 0, prev = ''element''\<rparr> \<and>
   pseudoElement b (caught (new_Test t) [PseudoElement a])
     = Inl (CardinalityError,
         \<lparr>string = t @ ''::'' @ a, idc = 0, selector = 0, psel = 2, prev = ''psel''\<rparr>) \<and>
   pseudoElement c (caught (new_Test t) [PseudoElement a, PseudoElement b])
     = Inr \<lparr>string = t @ ''::'' @ a @ ''::'' @ c, idc = 0, selector = 0, psel = 3,
         prev = ''psel''\<rparr> \<and>
   id' b (caught (new_Test t) [Id a])
     = Inl (CardinalityError,
         \<lparr>string = t @ ''#'' @ a, idc = 2, selector = 0, psel = 0, prev = ''id''\<rparr>) \<and>
   id' c (caught (new_Test t) [Id a, Id b])
     = Inl (OrderError,
         \<lparr>string = t @ ''#'' @ a, idc = 3, selector = 0, psel = 0, prev = ''id''\<rparr>)"
proof (intro conjI)
  show "element v s = Inl (CardinalityError, s') \<longleftrightarrow>
      s' = s\<lparr>selector := selector s + 1\<rparr> \<and>
      (idc s = 2 \<or> selector s + 1 = 2 \<or> psel s = 2)"
    by (auto simp: element_def exception1_def exception2_def Let_def)
  show "id' v s = Inl (CardinalityError, s') \<longleftrightarrow>
      s' = s\<lparr>idc := idc s + 1\<rparr> \<and>
      (idc s + 1 = 2 \<or> selector s = 2 \<or> psel s = 2)"
    by (auto simp: id'_def exception1_def exception2_def Let_def)
  show "pseudoElement v s = Inl (CardinalityError, s') \<longleftrightarrow>
      s' = s\<lparr>prev := ''psel'', psel := psel s + 1\<rparr> \<and>
      (idc s = 2 \<or> selector s = 2 \<or> psel s + 1 = 2)"
    by (auto simp: pseudoElement_def exception1_def Let_def)
qed (simp_all add: method_defs new_Test_def)

text \<open>
  \<open>id('x')\<close>, then \<open>id('y')\<close> with its CardinalityError caught, then \<open>id('z')\<close> on the same
  instance: the third call throws. And after two \<open>element\<close> calls, the first
  \<open>pseudoElement\<close> call throws the CardinalityError with its own counter at 1.
\<close>

theorem third_id_append_throws_OrderError:
  "id' ''y'' (caught (new_Test []) [Id ''x''])
     = Inl (CardinalityError,
         \<lparr>string = ''#x'', idc = 2, selector = 0, psel = 0, prev = ''id''\<rparr>) \<and>
   id' ''z'' (caught (new_Test []) [Id ''x'', Id ''y''])
     = Inl (OrderError,
         \<lparr>string = ''#x'', idc = 3, selector = 0, psel = 0, prev = ''id''\<rparr>) \<and>
   pseudoElement ''c'' (caught (new_Test []) [Element ''a'', Element ''b''])
     = Inl (CardinalityError,
         \<lparr>string = ''a'', idc = 0, selector = 2, psel = 1, prev = ''psel''\<rparr>)"
  by (simp add: method_defs new_Test_def)

section \<open>Facts about the rectangle\<close>

text \<open>
  C8. \<open>Rectangle(width, height)\<close> returns a value whose fields \<open>width\<close> and \<open>height\<close> are
  the arguments and whose \<open>getArea()\<close> is the product of the two fields as they are when
  it is called (after an assignment to a field, the product with the new value);
  \<open>Rectangle(10, 20)\<close> has width 10, height 20 and area 200.
\<close>

theorem Rectangle_fields_and_area:
  "width (Rectangle w h) = w \<and> height (Rectangle w h) = h \<and>
   getArea (Rectangle w h) = w * h \<and>
   getArea (r\<lparr>width := w'\<rparr>) = w' * height r \<and>
   getArea (r\<lparr>height := h'\<rparr>) = width r * h' \<and>
   getArea (Rectangle (10::int) 20) = 200 \<and>
   width (Rectangle (10::int) 20) = 10 \<and>
   height (Rectangle (10::int) 20) = 20"
  by (simp add: Rectangle_def getArea_def)

section \<open>Facts about the codec\<close>

text \<open>
  C6, as the code has it. For every template and every text that \<open>JSON.parse\<close> decodes
  to an object, \<open>fromJSON(template, text)\<close> returns that object with the own properties
  of the parsed text and the template as its prototype.
\<close>

theorem fromJSON_attaches_template:
  "JSON_parse json = Some (JSObject p own) \<Longrightarrow>
     fromJSON JSON_parse template json = Inr (JSObject template own)"
  by (simp add: fromJSON_def)

text \<open>\<open>fromJSON(Circle.prototype, '{"radius":10}')\<close>.\<close>

theorem fromJSON_attaches_template_witness:
  "(\<lambda>text. if text = ''{\"radius\":10}''
            then Some (JSObject (Some ''Object.prototype'') [(''radius'', JSNumber (10::int))])
            else None) ''{\"radius\":10}''
     = Some (JSObject (Some ''Object.prototype'') [(''radius'', JSNumber 10)]) \<and>
   fromJSON
     (\<lambda>text. if text = ''{\"radius\":10}''
            then Some (JSObject (Some ''Object.prototype'') [(''radius'', JSNumber (10::int))])
            else None)
     (Some ''Circle.prototype'') ''{\"radius\":10}''
     = Inr (JSObject (Some ''Circle.prototype'') [(''radius'', JSNumber 10)])"
proof -
  let ?parse = "\<lambda>text. if text = ''{\"radius\":10}''
            then Some (JSObject (Some ''Object.prototype'') [(''radius'', JSNumber (10::int))])
            else None"
  have parsed: "?parse ''{\"radius\":10}''
     = Some (JSObject (Some ''Object.prototype'') [(''radius'', JSNumber 10)])"
    by simp
  from fromJSON_attaches_template [of ?parse "''{\"radius\":10}''", OF parsed] parsed
  show ?thesis by blast
qed

text \<open>
  The text \<open>null\<close> is well formed and decodes to \<open>null\<close>: \<open>Object.setPrototypeOf\<close> throws
  a TypeError and \<open>fromJSON\<close> returns nothing. The text \<open>10\<close> decodes to a number, which
  is returned as it is, with no template.
\<close>

theorem fromJSON_null_throws_TypeError:
  "fromJSON (\<lambda>text. if text = ''null'' then Some JSNull else None)
     (Some ''Circle.prototype'') ''null''
     = (Inl TypeError :: codec_error + (int, string) jsvalue) \<and>
   fromJSON (\<lambda>text. if text = ''10'' then Some (JSNumber 10) else None)
     (Some ''Circle.prototype'') ''10''
     = (Inr (JSNumber 10) :: codec_error + (int, string) jsvalue)"
  by (simp add: fromJSON_def)

text \<open>
  C7. \<open>fromJSON\<close> throws the parser's error (the SyntaxError of \<open>JSON.parse\<close>) if and only
  if the parser rejects the text: the error is neither caught nor replaced, and no
  other step of \<open>fromJSON\<close> throws it.
\<close>

theorem fromJSON_SyntaxError_iff:
  "fromJSON JSON_parse proto json = Inl SyntaxError \<longleftrightarrow> JSON_parse json = None"
proof (cases "JSON_parse json")
  case None
  then show ?thesis by (simp add: fromJSON_def)
next
  case (Some v)
  then show ?thesis by (cases v) (simp_all add: fromJSON_def)
qed

section \<open>Facts about the runtime's codec\<close>

subsection \<open>Numbers\<close>














subsection \<open>Strings\<close>







subsection \<open>Values\<close>




















section \<open>Serializing and deserializing\<close>




end
